theory Spec2Isabelle
  imports Complex_Main
begin

text \<open>
  A verification of the process manager, the messenger process and the timed loops of
  the repository. The development follows one process: its manager object, and a world
  that holds the pipes, the process objects and the log. What other processes do, and
  when, is outside it, so a read from an empty pipe waits for ever and a child never
  changes between two calls. Time is a real number of seconds; the rounding of floats is
  not represented, and \<^verbatim>\<open>time.sleep\<close> sleeps exactly as long as it is asked to.
\<close>

section \<open>Values exchanged between processes\<close>

text \<open>
  The enumerations of \<^verbatim>\<open>ipc/signals.py\<close>, flattened into one datatype: a signal is
  identified by its enumeration and its member name.
\<close>

datatype signal =
    DXL_INITIALIZATION_COMPLETE
  | VREP_INITIALIZATION_COMPLETE
  | BULLET_INITIALIZATION_COMPLETE
  | DMPC_REQUESTING_PLAN
  | DMPC_PLANNING_COMPLETE
  | DMPC_PLANNING_FAILURE
  | MESSENGER_A
  | MESSENGER_B
  | MESSENGER_C
  | MP_STOP
  | MP_HEARTBEAT
  | JLC_STARTING_CONTROL_LOOP

text \<open>
  Modelled from the spec: the enumeration \<^verbatim>\<open>ipc.enums.PLAYER\<close>, which
  \<^verbatim>\<open>timing/timed_loop.py\<close> imports but which is not among the sources. The glossary
  names three players: motor-driver, rigid-body-engine and physics-simulator.
\<close>

datatype player = DXL | BULLET | VREP

text \<open>
  \<^verbatim>\<open>multiprocessing.Pipe()\<close> returns the two ends of a fresh duplex pipe. An end is
  named by the number of its pipe and its side.
\<close>

datatype pipe_end = End1 | End2

type_synonym conn = "nat \<times> pipe_end"

text \<open>
  The Python values that travel through the pipes and the keyword arguments: a dictionary
  with string keys is an association list in insertion order.
\<close>

datatype pyval =
    PyNone
  | PyInt int
  | PyStr string
  | PySignal signal
  | PyPlayer player
  | PyConn conn
  | PyDict "(string \<times> pyval) list"

type_synonym message = "(string \<times> pyval) list"

text \<open>
  An exception is its class; AttributeError also carries what its message says, since the
  interpreter raises it for a method called on \<^verbatim>\<open>None\<close> and \<^verbatim>\<open>process_message\<close>
  raises it for a signal without a handler.
\<close>

datatype attribute_error = NoneHasNoAttribute string | UnrecognizedSignal pyval

datatype error =
    KeyError
  | RuntimeError
  | ValueError
  | AttributeError attribute_error
  | TypeError
  | NameError
  | IndexError
  | ZeroDivisionError
  | OverflowError
  | OSError
  | Blocked \<comment> \<open>not an exception: the call waits for a message that nobody in the model sends\<close>

subsection \<open>Dictionaries in insertion order\<close>

fun dict_set :: "'k \<Rightarrow> 'v \<Rightarrow> ('k \<times> 'v) list \<Rightarrow> ('k \<times> 'v) list" where
  "dict_set k v [] = [(k, v)]"
| "dict_set k v ((k', v') # d) = (if k' = k then (k, v) # d else (k', v') # dict_set k v d)"

fun dict_del :: "'k \<Rightarrow> ('k \<times> 'v) list \<Rightarrow> ('k \<times> 'v) list" where
  "dict_del k [] = []"
| "dict_del k ((k', v') # d) = (if k' = k then d else (k', v') # dict_del k d)"

definition dict_mem :: "'k \<Rightarrow> ('k \<times> 'v) list \<Rightarrow> bool" where
  "dict_mem k d = (map_of d k \<noteq> None)"

section \<open>The operating system as seen by one process\<close>

record process =
  target :: string
  args :: "pyval list"
  kwargs :: "(string \<times> pyval) list"
  daemon :: bool
  started :: bool
  exitcode :: "int option"

datatype log_event =
    LogClosingProcess string
  | LogProcExited string "int option"
  | LogClosingAll string
  | LogClosing string
  | PrintKeyNotFound string
  | LogExitingProc string
  | LogDebugMsg pyval
  | LogReceivedMsg pyval
  | LogHeartbeat string

text \<open>
  The world holds what lives outside the manager object: the pipes created so far with
  the messages waiting at each end, the process objects created so far (a process handle
  is its position in \<open>procs\<close>), and the lines logged or printed.
\<close>

record world =
  pipes :: nat
  inbox :: "conn \<Rightarrow> pyval list"
  procs :: "process list"
  logged :: "log_event list"

definition world0 :: world where
  "world0 = \<lparr>pipes = 0, inbox = (\<lambda>c. []), procs = [], logged = []\<rparr>"

definition emit :: "log_event \<Rightarrow> world \<Rightarrow> world" where
  "emit e w = w\<lparr>logged := logged w @ [e]\<rparr>"

definition other_end :: "conn \<Rightarrow> conn" where
  "other_end c = (fst c, (case snd c of End1 \<Rightarrow> End2 | End2 \<Rightarrow> End1))"

definition Pipe :: "world \<Rightarrow> (conn \<times> conn) \<times> world" where
  "Pipe w = (((pipes w, End1), (pipes w, End2)), w\<lparr>pipes := Suc (pipes w)\<rparr>)"

definition conn_send :: "conn \<Rightarrow> pyval \<Rightarrow> world \<Rightarrow> world" where
  "conn_send c v w = w\<lparr>inbox := (inbox w)(other_end c := inbox w (other_end c) @ [v])\<rparr>"

text \<open>
  \<^verbatim>\<open>connection.poll(timeout)\<close>: true when a message waits. With nothing waiting, a
  numeric timeout runs out and the answer is false; the timeout \<^verbatim>\<open>None\<close> waits for
  ever, since no other process acts in the model.
\<close>

definition conn_poll :: "conn \<Rightarrow> real option \<Rightarrow> world \<Rightarrow> error + bool" where
  "conn_poll c timeout w =
     (if inbox w c \<noteq> [] then Inr True
      else (case timeout of None \<Rightarrow> Inl Blocked | Some t \<Rightarrow> Inr False))"

definition conn_recv :: "conn \<Rightarrow> world \<Rightarrow> (error + pyval) \<times> world" where
  "conn_recv c w =
     (case inbox w c of
        [] \<Rightarrow> (Inl Blocked, w)
      | v # vs \<Rightarrow> (Inr v, w\<lparr>inbox := (inbox w)(c := vs)\<rparr>))"

definition Process :: "string \<Rightarrow> pyval list \<Rightarrow> (string \<times> pyval) list \<Rightarrow> bool \<Rightarrow> world \<Rightarrow> nat \<times> world" where
  "Process f as kws dmn w =
     (length (procs w),
      w\<lparr>procs := procs w @
          [\<lparr>target = f, args = as, kwargs = kws, daemon = dmn, started = False, exitcode = None\<rparr>]\<rparr>)"

definition start :: "nat \<Rightarrow> world \<Rightarrow> world" where
  "start p w =
     (if p < length (procs w) then w\<lparr>procs := (procs w)[p := (procs w ! p)\<lparr>started := True\<rparr>]\<rparr> else w)"

text \<open>
  \<^verbatim>\<open>proc.join(1)\<close> waits at most one second and returns either way; what the child does
  in that second is not part of the model, so the world is as before and the exit code
  read afterwards is the one the world holds.
\<close>

definition join :: "nat \<Rightarrow> world \<Rightarrow> world" where
  "join p w = w"

definition proc_exitcode :: "nat \<Rightarrow> world \<Rightarrow> int option" where
  "proc_exitcode p w = (if p < length (procs w) then exitcode (procs w ! p) else None)"

section \<open>ProcessManager (ipc/process\_manager.py)\<close>

record process_reference =
  ref_name :: string
  link_to_child :: conn
  proc :: nat

record process_manager =
  name :: string
  ext_proc :: "(string \<times> process_reference) list"
  link_to_parent :: "conn option"
  msg :: pyval

definition ProcessManager_init :: "string \<Rightarrow> conn option \<Rightarrow> process_manager" where
  "ProcessManager_init nm ltp = \<lparr>name = nm, ext_proc = [], link_to_parent = ltp, msg = PyNone\<rparr>"

text \<open>
  \<^verbatim>\<open>add_process\<close>: the pipe is created and the process started first; the test for a
  name already in the table comes after \<^verbatim>\<open>proc.start()\<close>.
\<close>

definition add_process ::
  "string \<Rightarrow> string \<Rightarrow> bool \<Rightarrow> pyval list \<Rightarrow> (string \<times> pyval) list \<Rightarrow>
   'a process_manager_scheme \<Rightarrow> world \<Rightarrow> (error + unit) \<times> 'a process_manager_scheme \<times> world" where
  "add_process nm f dmn as kws m w =
     (let ((ltc, ltp), w1) = Pipe w;
          kws' = dict_set ''link_to_parent'' (PyConn ltp) kws;
          (p, w2) = Process f as kws' dmn w1;
          w3 = start p w2
      in if dict_mem nm (ext_proc m)
         then (Inl RuntimeError, m, w3)
         else (Inr (),
               m\<lparr>ext_proc :=
                   dict_set nm \<lparr>ref_name = nm, link_to_child = ltc, proc = p\<rparr> (ext_proc m)\<rparr>,
               w3))"

text \<open>
  \<^verbatim>\<open>close_process\<close>: the table is read with \<^verbatim>\<open>self.ext_proc[name]\<close> before anything
  is sent; only the final \<^verbatim>\<open>del\<close> stands inside \<^verbatim>\<open>try ... except KeyError\<close>.
\<close>

definition close_process ::
  "string \<Rightarrow> 'a process_manager_scheme \<Rightarrow> world \<Rightarrow>
   (error + unit) \<times> 'a process_manager_scheme \<times> world" where
  "close_process nm m w =
     (let w1 = emit (LogClosingProcess nm) w
      in case map_of (ext_proc m) nm of
           None \<Rightarrow> (Inl KeyError, m, w1)
         | Some proc_ref \<Rightarrow>
             (let w2 = conn_send (link_to_child proc_ref) (PySignal MP_STOP) w1;
                  w3 = join (proc proc_ref) w2;
                  w4 = emit (LogProcExited nm (proc_exitcode (proc proc_ref) w3)) w3
              in if dict_mem nm (ext_proc m)
                 then (Inr (), m\<lparr>ext_proc := dict_del nm (ext_proc m)\<rparr>, w4)
                 else (Inr (), m, emit (PrintKeyNotFound nm) w4)))"

text \<open>The loop of \<^verbatim>\<open>close_all_processes\<close> over a copy of the keys.\<close>

fun close_each ::
  "string list \<Rightarrow> 'a process_manager_scheme \<Rightarrow> world \<Rightarrow>
   (error + unit) \<times> 'a process_manager_scheme \<times> world" where
  "close_each [] m w = (Inr (), m, w)"
| "close_each (k # ks) m w =
     (case close_process k m (emit (LogClosing k) w) of
        (Inl e, m', w') \<Rightarrow> (Inl e, m', w')
      | (Inr u, m', w') \<Rightarrow> close_each ks m' w')"

definition close_all_processes ::
  "'a process_manager_scheme \<Rightarrow> world \<Rightarrow> (error + unit) \<times> 'a process_manager_scheme \<times> world" where
  "close_all_processes m w =
     close_each (map fst (ext_proc m)) m (emit (LogClosingAll (name m)) w)"

text \<open>
  \<^verbatim>\<open>poll\<close> and \<^verbatim>\<open>recv\<close>: with no process name the connection is
  \<^verbatim>\<open>self.link_to_parent\<close>, used as it is; calling a method on \<^verbatim>\<open>None\<close> raises
  AttributeError, and a name missing from the table raises KeyError.
\<close>

definition poll ::
  "string option \<Rightarrow> real option \<Rightarrow> 'a process_manager_scheme \<Rightarrow> world \<Rightarrow> error + bool" where
  "poll proc_name timeout m w =
     (case proc_name of
        None \<Rightarrow>
          (case link_to_parent m of
             None \<Rightarrow> Inl (AttributeError (NoneHasNoAttribute ''poll''))
           | Some connection \<Rightarrow> conn_poll connection timeout w)
      | Some n \<Rightarrow>
          (case map_of (ext_proc m) n of
             None \<Rightarrow> Inl KeyError
           | Some r \<Rightarrow> conn_poll (link_to_child r) timeout w))"

definition recv ::
  "string option \<Rightarrow> 'a process_manager_scheme \<Rightarrow> world \<Rightarrow> (error + pyval) \<times> world" where
  "recv proc_name m w =
     (case proc_name of
        None \<Rightarrow>
          (case link_to_parent m of
             None \<Rightarrow> (Inl (AttributeError (NoneHasNoAttribute ''recv'')), w)
           | Some connection \<Rightarrow> conn_recv connection w)
      | Some n \<Rightarrow>
          (case map_of (ext_proc m) n of
             None \<Rightarrow> (Inl KeyError, w)
           | Some r \<Rightarrow> conn_recv (link_to_child r) w))"

definition send ::
  "string option \<Rightarrow> pyval \<Rightarrow> 'a process_manager_scheme \<Rightarrow> world \<Rightarrow> (error + unit) \<times> world" where
  "send proc_name v m w =
     (if v = PyNone then (Inl ValueError, w)
      else (case proc_name of
              None \<Rightarrow>
                (case link_to_parent m of
                   None \<Rightarrow> (Inl ValueError, w)
                 | Some connection \<Rightarrow> (Inr (), conn_send connection v w))
            | Some n \<Rightarrow>
                (case map_of (ext_proc m) n of
                   None \<Rightarrow> (Inl KeyError, w)
                 | Some r \<Rightarrow> (Inr (), conn_send (link_to_child r) v w))))"

definition msg_is_stop_signal :: "pyval \<Rightarrow> bool" where
  "msg_is_stop_signal v = (v = PySignal MP_STOP)"

definition check_exit_condition ::
  "'a process_manager_scheme \<Rightarrow> world \<Rightarrow> (error + bool) \<times> 'a process_manager_scheme \<times> world" where
  "check_exit_condition m w =
     (if link_to_parent m = None then (Inl ValueError, m, w)
      else (case poll None (Some 0) m w of
              Inl e \<Rightarrow> (Inl e, m, w)
            | Inr False \<Rightarrow> (Inr False, m, w)
            | Inr True \<Rightarrow>
                (case recv None m w of
                   (Inl e, w') \<Rightarrow> (Inl e, m, w')
                 | (Inr v, w') \<Rightarrow>
                     (if msg_is_stop_signal v
                      then (Inr True, m, emit (LogExitingProc (name m)) w')
                      else (Inr False, m\<lparr>msg := v\<rparr>, emit (LogDebugMsg v) w')))))"

definition process_should_continue ::
  "'a process_manager_scheme \<Rightarrow> world \<Rightarrow> (error + bool) \<times> 'a process_manager_scheme \<times> world" where
  "process_should_continue m w =
     (case check_exit_condition m w of
        (Inl e, m', w') \<Rightarrow> (Inl e, m', w')
      | (Inr b, m', w') \<Rightarrow> (Inr (\<not> b), m', w'))"

text \<open>
  \<^verbatim>\<open>ChildManager.__init__(self, name, link_to_parent)\<close> has no default for
  \<^verbatim>\<open>link_to_parent\<close>: a call that leaves the argument out (\<open>None\<close> here) is refused
  with TypeError before the body runs; a call that passes it (\<open>Some v\<close>, where \<open>v\<close>
  may be Python's \<^verbatim>\<open>None\<close>) hands \<open>v\<close> to \<^verbatim>\<open>ProcessManager.__init__\<close>.
\<close>

definition ChildManager_init :: "string \<Rightarrow> conn option option \<Rightarrow> error + process_manager" where
  "ChildManager_init nm arg =
     (case arg of
        None \<Rightarrow> Inl TypeError
      | Some ltp \<Rightarrow> Inr (ProcessManager_init nm ltp))"

text \<open>
  The failure kinds that the specification documents, as the exceptions that stand for
  them in the code: AlreadyExists is the RuntimeError of \<^verbatim>\<open>add_process\<close>, NotFound the
  KeyError of a name that is not in the table, InvalidArgument the ValueError of
  \<^verbatim>\<open>send\<close> and \<^verbatim>\<open>_check_exit_condition\<close>, and UnrecognizedSignal the
  AttributeError that \<^verbatim>\<open>process_message\<close> raises.
\<close>

fun documented_failure :: "error \<Rightarrow> bool" where
  "documented_failure RuntimeError = True"
| "documented_failure KeyError = True"
| "documented_failure ValueError = True"
| "documented_failure (AttributeError (UnrecognizedSignal t)) = True"
| "documented_failure e = False"

section \<open>MessengerProcess (ipc/messenger\_process.py)\<close>

text \<open>
  A handler is either the bound method \<^verbatim>\<open>self.heartbeat\<close> or a function supplied by the
  user. \<^verbatim>\<open>fn(**msg)\<close> hands the whole dictionary to the handler as named arguments, so
  a handler is a function of the dictionary; it returns a value or raises (a parameter
  list that does not fit the keys raises TypeError).
\<close>

datatype handler = Heartbeat | Callback "message \<Rightarrow> error + pyval"

record messenger_process = process_manager +
  recognized_signals :: "(pyval \<times> handler) list"
  should_stop :: bool

text \<open>Dictionaries are the only values of the model that Python cannot hash.\<close>

fun hashable :: "pyval \<Rightarrow> bool" where
  "hashable (PyDict d) = False"
| "hashable v = True"

definition add_signal ::
  "pyval \<Rightarrow> handler \<Rightarrow> messenger_process \<Rightarrow> (error + unit) \<times> messenger_process" where
  "add_signal sig fn m =
     (if hashable sig
      then (Inr (), m\<lparr>recognized_signals := dict_set sig fn (recognized_signals m)\<rparr>)
      else (Inl TypeError, m))"

definition MessengerProcess_init :: "string \<Rightarrow> conn option \<Rightarrow> messenger_process" where
  "MessengerProcess_init nm ltp =
     (let m0 = \<lparr>name = nm, ext_proc = [], link_to_parent = ltp, msg = PyNone,
                recognized_signals = [], should_stop = False\<rparr>;
          m1 = snd (add_signal (PySignal MP_HEARTBEAT) Heartbeat m0)
      in m1\<lparr>should_stop := False\<rparr>)"

text \<open>
  \<^verbatim>\<open>heartbeat(self, *args, **kwargs)\<close>, called as a bound method with named arguments:
  every name goes into \<^verbatim>\<open>kwargs\<close> and is ignored, except the name \<^verbatim>\<open>self\<close>, which
  collides with the bound object and makes the call raise TypeError before the body runs.
\<close>

definition heartbeat ::
  "message \<Rightarrow> messenger_process \<Rightarrow> world \<Rightarrow> (error + pyval) \<times> world" where
  "heartbeat kws m w =
     (if dict_mem ''self'' kws then (Inl TypeError, w)
      else (Inr PyNone, emit (LogHeartbeat (name m)) w))"

definition call_handler ::
  "handler \<Rightarrow> message \<Rightarrow> messenger_process \<Rightarrow> world \<Rightarrow> (error + pyval) \<times> world" where
  "call_handler fn d m w =
     (case fn of
        Heartbeat \<Rightarrow> heartbeat d m w
      | Callback f \<Rightarrow> (f d, w))"

text \<open>
  \<^verbatim>\<open>process_message\<close>: \<^verbatim>\<open>msg['type']\<close> raises TypeError on a value that is not a
  dictionary and KeyError on a dictionary without the key; the membership test hashes the
  type.
\<close>

definition process_message ::
  "pyval \<Rightarrow> messenger_process \<Rightarrow> world \<Rightarrow> (error + pyval) \<times> world" where
  "process_message v m w =
     (case v of
        PyDict d \<Rightarrow>
          (case map_of d ''type'' of
             None \<Rightarrow> (Inl KeyError, w)
           | Some t \<Rightarrow>
               (if \<not> hashable t then (Inl TypeError, w)
                else (case map_of (recognized_signals m) t of
                        Some fn \<Rightarrow> call_handler fn d m w
                      | None \<Rightarrow>
                          (Inl (AttributeError (UnrecognizedSignal t)), emit (LogReceivedMsg v) w))))
      | _ \<Rightarrow> (Inl TypeError, w))"

text \<open>The handler of the tests, \<^verbatim>\<open>def fn(val, **kwargs): return val\<close>.\<close>

definition fn_val :: "message \<Rightarrow> error + pyval" where
  "fn_val d = (case map_of d ''val'' of None \<Rightarrow> Inl TypeError | Some val \<Rightarrow> Inr val)"

definition there_is_a_new_message ::
  "string option \<Rightarrow> real option \<Rightarrow> messenger_process \<Rightarrow> world \<Rightarrow> error + bool" where
  "there_is_a_new_message proc_name timeout m w = poll proc_name timeout m w"

definition handle_messages ::
  "string option \<Rightarrow> messenger_process \<Rightarrow> world \<Rightarrow>
   (error + bool) \<times> messenger_process \<times> world" where
  "handle_messages proc_name m w =
     (case there_is_a_new_message proc_name (Some 0) m w of
        Inl e \<Rightarrow> (Inl e, m, w)
      | Inr False \<Rightarrow> (Inr False, m, w)
      | Inr True \<Rightarrow>
          (case recv proc_name m w of
             (Inl e, w1) \<Rightarrow> (Inl e, m, w1)
           | (Inr v, w1) \<Rightarrow>
               (if msg_is_stop_signal v then (Inr True, m\<lparr>should_stop := True\<rparr>, w1)
                else (case process_message v m w1 of
                        (Inl e, w2) \<Rightarrow> (Inl e, m, w2)
                      | (Inr r, w2) \<Rightarrow> (Inr True, m, w2)))))"

definition get_messages ::
  "string option \<Rightarrow> messenger_process \<Rightarrow> world \<Rightarrow> (error + pyval) \<times> world" where
  "get_messages proc_name m w =
     (case there_is_a_new_message proc_name (Some 0) m w of
        Inl e \<Rightarrow> (Inl e, w)
      | Inr True \<Rightarrow> recv proc_name m w
      | Inr False \<Rightarrow> (Inr PyNone, w))"

definition should_stop_loop :: "messenger_process \<Rightarrow> bool" where
  "should_stop_loop m = should_stop m"

text \<open>The hooks \<^verbatim>\<open>setup\<close>, \<^verbatim>\<open>loop_routine\<close> and \<^verbatim>\<open>teardown\<close> of the base class do nothing.\<close>

definition setup_hook :: "messenger_process \<Rightarrow> world \<Rightarrow> messenger_process \<times> world" where
  "setup_hook m w = (m, w)"

definition loop_routine :: "messenger_process \<Rightarrow> world \<Rightarrow> messenger_process \<times> world" where
  "loop_routine m w = (m, w)"

definition teardown :: "messenger_process \<Rightarrow> world \<Rightarrow> messenger_process \<times> world" where
  "teardown m w = (m, w)"

subsection \<open>The operations of a MessengerProcess as one step function\<close>

datatype mp_op =
    HandleMessages "string option"
  | ProcessMessage pyval
  | GetMessages "string option"
  | AddSignal pyval handler
  | ShouldStopLoop
  | Setup
  | LoopRoutine
  | Teardown
  | HeartbeatCall message
  | ThereIsANewMessage "string option" "real option"
  | AddProcess string string bool "pyval list" "(string \<times> pyval) list"
  | CloseProcess string
  | CloseAllProcesses
  | Poll "string option" "real option"
  | Recv "string option"
  | Send "string option" pyval
  | CheckExitCondition
  | ProcessShouldContinue

text \<open>
  The object and the world after one call, whether the call returned or raised: what a
  call changed before it raised stays changed.
\<close>

fun mp_step :: "mp_op \<Rightarrow> messenger_process \<times> world \<Rightarrow> messenger_process \<times> world" where
  "mp_step (HandleMessages pn) (m, w) = snd (handle_messages pn m w)"
| "mp_step (ProcessMessage v) (m, w) = (m, snd (process_message v m w))"
| "mp_step (GetMessages pn) (m, w) = (m, snd (get_messages pn m w))"
| "mp_step (AddSignal sig fn) (m, w) = (snd (add_signal sig fn m), w)"
| "mp_step ShouldStopLoop (m, w) = (m, w)"
| "mp_step Setup (m, w) = setup_hook m w"
| "mp_step LoopRoutine (m, w) = loop_routine m w"
| "mp_step Teardown (m, w) = teardown m w"
| "mp_step (HeartbeatCall kws) (m, w) = (m, snd (heartbeat kws m w))"
| "mp_step (ThereIsANewMessage pn t) (m, w) = (m, w)"
| "mp_step (AddProcess nm f dmn as kws) (m, w) = snd (add_process nm f dmn as kws m w)"
| "mp_step (CloseProcess nm) (m, w) = snd (close_process nm m w)"
| "mp_step CloseAllProcesses (m, w) = snd (close_all_processes m w)"
| "mp_step (Poll pn t) (m, w) = (m, w)"
| "mp_step (Recv pn) (m, w) = (m, snd (recv pn m w))"
| "mp_step (Send pn v) (m, w) = (m, snd (send pn v m w))"
| "mp_step CheckExitCondition (m, w) = snd (check_exit_condition m w)"
| "mp_step ProcessShouldContinue (m, w) = snd (process_should_continue m w)"

fun mp_run :: "mp_op list \<Rightarrow> messenger_process \<times> world \<Rightarrow> messenger_process \<times> world" where
  "mp_run [] s = s"
| "mp_run (op # ops) s = mp_run ops (mp_step op s)"

text \<open>
  The message that \<^verbatim>\<open>handle_messages\<close> is about to receive, when there is one: the head
  of the queue at the channel the call names.
\<close>

definition channel_of :: "string option \<Rightarrow> 'a process_manager_scheme \<Rightarrow> conn option" where
  "channel_of proc_name m =
     (case proc_name of
        None \<Rightarrow> link_to_parent m
      | Some n \<Rightarrow> map_option link_to_child (map_of (ext_proc m) n))"

definition stop_observed :: "mp_op \<Rightarrow> messenger_process \<times> world \<Rightarrow> bool" where
  "stop_observed op s =
     (case op of
        HandleMessages pn \<Rightarrow>
          (case channel_of pn (fst s) of
             None \<Rightarrow> False
           | Some c \<Rightarrow> (case inbox (snd s) c of [] \<Rightarrow> False | v # vs \<Rightarrow> v = PySignal MP_STOP))
      | _ \<Rightarrow> False)"

subsection \<open>What a call raises\<close>

definition raised :: "error + 'a \<Rightarrow> error option" where
  "raised r = (case r of Inl e \<Rightarrow> Some e | Inr x \<Rightarrow> None)"

fun mp_failure :: "mp_op \<Rightarrow> messenger_process \<times> world \<Rightarrow> error option" where
  "mp_failure (HandleMessages pn) (m, w) = raised (fst (handle_messages pn m w))"
| "mp_failure (ProcessMessage v) (m, w) = raised (fst (process_message v m w))"
| "mp_failure (GetMessages pn) (m, w) = raised (fst (get_messages pn m w))"
| "mp_failure (AddSignal sig fn) (m, w) = raised (fst (add_signal sig fn m))"
| "mp_failure ShouldStopLoop (m, w) = None"
| "mp_failure Setup (m, w) = None"
| "mp_failure LoopRoutine (m, w) = None"
| "mp_failure Teardown (m, w) = None"
| "mp_failure (HeartbeatCall kws) (m, w) = raised (fst (heartbeat kws m w))"
| "mp_failure (ThereIsANewMessage pn t) (m, w) = raised (there_is_a_new_message pn t m w)"
| "mp_failure (AddProcess nm f dmn as kws) (m, w) = raised (fst (add_process nm f dmn as kws m w))"
| "mp_failure (CloseProcess nm) (m, w) = raised (fst (close_process nm m w))"
| "mp_failure CloseAllProcesses (m, w) = raised (fst (close_all_processes m w))"
| "mp_failure (Poll pn t) (m, w) = raised (poll pn t m w)"
| "mp_failure (Recv pn) (m, w) = raised (fst (recv pn m w))"
| "mp_failure (Send pn v) (m, w) = raised (fst (send pn v m w))"
| "mp_failure CheckExitCondition (m, w) = raised (fst (check_exit_condition m w))"
| "mp_failure ProcessShouldContinue (m, w) = raised (fst (process_should_continue m w))"

text \<open>
  The calls that address the parent channel: those that take a process name and are
  given none, and the two that always read the parent.
\<close>

fun on_parent :: "mp_op \<Rightarrow> bool" where
  "on_parent (HandleMessages None) = True"
| "on_parent (GetMessages None) = True"
| "on_parent (ThereIsANewMessage None t) = True"
| "on_parent (Poll None t) = True"
| "on_parent (Recv None) = True"
| "on_parent (Send None v) = True"
| "on_parent CheckExitCondition = True"
| "on_parent ProcessShouldContinue = True"
| "on_parent x = False"

text \<open>
  The calls whose code tests \<^verbatim>\<open>self.link_to_parent is None\<close> and raises ValueError:
  \<^verbatim>\<open>send\<close> to the parent and \<^verbatim>\<open>_check_exit_condition\<close>, also when it is reached through
  \<^verbatim>\<open>process_should_continue\<close>.
\<close>

fun guards_root :: "mp_op \<Rightarrow> bool" where
  "guards_root (Send None v) = True"
| "guards_root CheckExitCondition = True"
| "guards_root ProcessShouldContinue = True"
| "guards_root x = False"

section \<open>TimedLoop (timing/timed\_loop.py)\<close>

text \<open>
  Time is a real number of seconds. The world of a timed loop holds the monotonic clock
  read by \<^verbatim>\<open>time.perf_counter()\<close>, the durations that \<^verbatim>\<open>time.sleep\<close> has slept, two
  constants of the platform, and what was printed. \<^verbatim>\<open>time.sleep\<close> refuses a duration in
  two ways: beyond \<open>sleep_max\<close> the number does not fit the interpreter's time type and
  the call raises OverflowError, which is what the synchronized loop catches; a duration
  that fits but is beyond \<open>sleep_os_max\<close> is refused by the system call, and the call
  raises OSError, which no loop catches. A platform without the second limit has
  \<open>sleep_os_max = sleep_max\<close>.
\<close>

datatype print_event = PrintOverflow real | PrintTimes real real

record time_world =
  clock :: real
  slept :: "real list"
  sleep_max :: real
  sleep_os_max :: real
  printed :: "print_event list"

definition perf_counter :: "time_world \<Rightarrow> real" where
  "perf_counter w = clock w"

definition time_sleep :: "real \<Rightarrow> time_world \<Rightarrow> error + time_world" where
  "time_sleep secs w =
     (if secs < 0 then Inl ValueError
      else if sleep_max w < secs then Inl OverflowError
      else if sleep_os_max w < secs then Inl OSError
      else Inr (w\<lparr>clock := clock w + secs, slept := slept w @ [secs]\<rparr>))"

record timed_loop =
  i :: int
  dt :: real
  init_time :: "real option"


text \<open>
  The first half of \<^verbatim>\<open>wrapper\<close>, shared by both classes: count the call, and compute
  the desired end time; adding \<^verbatim>\<open>None\<close> raises the TypeError whose handler reads the
  clock into \<^verbatim>\<open>init_time\<close> and computes again.
\<close>

definition schedule :: "'a timed_loop_scheme \<Rightarrow> time_world \<Rightarrow> real \<times> 'a timed_loop_scheme" where
  "schedule self w =
     (let self1 = self\<lparr>i := i self + 1\<rparr>
      in case init_time self1 of
           Some t0 \<Rightarrow> (real_of_int (i self1) * dt self1 + t0, self1)
         | None \<Rightarrow>
             (let self2 = self1\<lparr>init_time := Some (perf_counter w)\<rparr>
              in (real_of_int (i self2) * dt self2 + perf_counter w, self2)))"

text \<open>
  \<^verbatim>\<open>TimedLoop.__call__\<close>: the wrapped function is a function of the world that returns
  its result and the world it leaves.
\<close>

definition wrapper ::
  "'a timed_loop_scheme \<Rightarrow> (time_world \<Rightarrow> 'r \<times> time_world) \<Rightarrow> time_world \<Rightarrow>
   (error + 'r) \<times> 'a timed_loop_scheme \<times> time_world" where
  "wrapper self loop_func w =
     (let (des_end_time, self') = schedule self w;
          (res, w1) = loop_func w;
          current_time = perf_counter w1
      in case time_sleep (max (des_end_time - current_time) 0) w1 of
           Inl e \<Rightarrow> (Inl e, self', w1)
         | Inr w2 \<Rightarrow> (Inr res, self', w2))"

definition change_dt :: "real \<Rightarrow> 'a timed_loop_scheme \<Rightarrow> 'a timed_loop_scheme" where
  "change_dt new_dt self = self\<lparr>i := 0, dt := new_dt, init_time := None\<rparr>"

definition reset_start_time :: "'a timed_loop_scheme \<Rightarrow> 'a timed_loop_scheme" where
  "reset_start_time self = self\<lparr>i := 0, init_time := None\<rparr>"

subsection \<open>SynchronizedTimedLoop\<close>

record synchronized_timed_loop = timed_loop +
  iterations_per_update :: int
  timestep_lookup_fn :: "time_world \<Rightarrow> real"

definition SynchronizedTimedLoop_init ::
  "real \<Rightarrow> int \<Rightarrow> (time_world \<Rightarrow> real) \<Rightarrow> synchronized_timed_loop" where
  "SynchronizedTimedLoop_init d n f =
     \<lparr>i = 0, dt = d, init_time = None, iterations_per_update = n, timestep_lookup_fn = f\<rparr>"

definition synchronize :: "synchronized_timed_loop \<Rightarrow> time_world \<Rightarrow> synchronized_timed_loop" where
  "synchronize stl w = (let desired_dt = timestep_lookup_fn stl w in change_dt desired_dt stl)"

definition sync_wrapper ::
  "synchronized_timed_loop \<Rightarrow> (time_world \<Rightarrow> 'r \<times> time_world) \<Rightarrow> time_world \<Rightarrow>
   (error + 'r) \<times> synchronized_timed_loop \<times> time_world" where
  "sync_wrapper stl loop_func w =
     (let (des_end_time, stl') = schedule stl w;
          (res, w1) = loop_func w;
          current_time = perf_counter w1
      in case (case time_sleep (max (des_end_time - current_time) 0) w1 of
                 Inr w2 \<Rightarrow> Inr w2
               | Inl OverflowError \<Rightarrow>
                   Inr (w1\<lparr>printed := printed w1 @
                          [PrintOverflow (max (des_end_time - current_time) 0),
                           PrintTimes des_end_time current_time]\<rparr>)
               | Inl e \<Rightarrow> Inl e) of
           Inl e \<Rightarrow> (Inl e, stl', w1)
         | Inr w3 \<Rightarrow>
             (if iterations_per_update stl' \<le> i stl'
              then (Inr res, synchronize stl' w3, w3)
              else (Inr res, stl', w3)))"

subsection \<open>The schedule as the specification words it\<close>

text \<open>
  The paced call of the specification: the origin \<open>t0\<close> is kept when present and is
  the clock at the call otherwise; the target of the call is \<open>i * dt + t0\<close> for the
  counter \<open>i\<close> after its increment; the sleep is \<open>max (target - now) 0\<close>. The
  definitions of the code above are compared with these.
\<close>

definition spec_origin :: "'a timed_loop_scheme \<Rightarrow> time_world \<Rightarrow> real" where
  "spec_origin self w = (case init_time self of None \<Rightarrow> clock w | Some t0 \<Rightarrow> t0)"

definition spec_target :: "'a timed_loop_scheme \<Rightarrow> time_world \<Rightarrow> real" where
  "spec_target self w = real_of_int (i self + 1) * dt self + spec_origin self w"

definition spec_sleep :: "real \<Rightarrow> real \<Rightarrow> real" where
  "spec_sleep des_end_time current_time = max (des_end_time - current_time) 0"


text \<open>
  A platform whose time type takes at most 9223372036 seconds (a signed 64-bit count of
  nanoseconds) and whose system call takes at most 100000000 seconds, with the clock
  at 0.
\<close>

definition platform0 :: time_world where
  "platform0 =
     \<lparr>clock = 0, slept = [], sleep_max = 9223372036, sleep_os_max = 100000000, printed = []\<rparr>"

subsection \<open>Runs of calls whose bodies take a given time\<close>

text \<open>A wrapped function that runs for \<open>d\<close> seconds and returns \<open>r\<close>.\<close>

definition busy :: "real \<Rightarrow> 'r \<Rightarrow> time_world \<Rightarrow> 'r \<times> time_world" where
  "busy d r w = (r, w\<lparr>clock := clock w + d\<rparr>)"


subsection \<open>The lookup of the time step by player\<close>

text \<open>
  Modelled from the spec: the two locations of the external store, \<^verbatim>\<open>mem.DATA_CLOCK\<close>
  and \<^verbatim>\<open>mem.DATA_VREP\<close>; the module \<^verbatim>\<open>mem\<close> is closed source and its import is
  commented out in \<^verbatim>\<open>timing/timed_loop.py\<close>. The content of a location is a
  dictionary from keys to lists of numbers.
\<close>

datatype memloc = DATA_CLOCK | DATA_VREP

type_synonym mem_module = "memloc \<Rightarrow> (string \<times> real list) list"

text \<open>The closure that \<^verbatim>\<open>_get_timestep_lookup_function\<close> returns, as its three captured values.\<close>

datatype timestep_lookup = TimestepLookup real memloc string

definition get_timestep_lookup_function :: "real \<Rightarrow> memloc \<Rightarrow> string \<Rightarrow> timestep_lookup" where
  "get_timestep_lookup_function control_loop_period memory_loc rtf_key =
     TimestepLookup control_loop_period memory_loc rtf_key"

fun timestep_lookup_function :: "timestep_lookup \<Rightarrow> mem_module \<Rightarrow> error + real" where
  "timestep_lookup_function (TimestepLookup control_loop_period memory_loc rtf_key) mem =
     (case map_of (mem memory_loc) rtf_key of
        None \<Rightarrow> Inl KeyError
      | Some [] \<Rightarrow> Inl IndexError
      | Some (real_time_factor # rest) \<Rightarrow>
          (if real_time_factor = 0 then Inl ZeroDivisionError
           else Inr (control_loop_period / real_time_factor)))"

text \<open>Python's truth value of an object, as \<^verbatim>\<open>if\<close> and \<^verbatim>\<open>or\<close> test it.\<close>

fun py_truthy :: "pyval \<Rightarrow> bool" where
  "py_truthy PyNone = False"
| "py_truthy (PyInt n) = (n \<noteq> 0)"
| "py_truthy (PyStr s) = (s \<noteq> [])"
| "py_truthy (PyDict d) = (d \<noteq> [])"
| "py_truthy v = True"

text \<open>
  \<^verbatim>\<open>get_timestep_lookup_function_by_player\<close>. The first test is
  \<^verbatim>\<open>player == PLAYER.DXL or PLAYER.BULLET\<close>: the right operand of \<^verbatim>\<open>or\<close> is the enumeration
  member itself. The global \<^verbatim>\<open>mem\<close> is \<open>None\<close> when the name is not bound, as in the
  sources, where reading it raises NameError.
\<close>

definition get_timestep_lookup_function_by_player ::
  "mem_module option \<Rightarrow> real \<Rightarrow> pyval \<Rightarrow> error + timestep_lookup" where
  "get_timestep_lookup_function_by_player mem control_loop_period player =
     (if player = PyPlayer DXL \<or> py_truthy (PyPlayer BULLET)
      then (case mem of
              None \<Rightarrow> Inl NameError
            | Some mm \<Rightarrow> Inr (get_timestep_lookup_function control_loop_period DATA_CLOCK ''real_time_factor''))
      else if player = PyPlayer VREP
      then (case mem of
              None \<Rightarrow> Inl NameError
            | Some mm \<Rightarrow> Inr (get_timestep_lookup_function control_loop_period DATA_VREP ''real_time_factor''))
      else Inl ValueError)"

definition recognized_player :: "pyval \<Rightarrow> bool" where
  "recognized_player v = (v = PyPlayer DXL \<or> v = PyPlayer BULLET \<or> v = PyPlayer VREP)"

section \<open>Properties of the process manager\<close>

subsection \<open>Adding a process under a name already in the table\<close>

lemma add_process_name_taken:
  assumes "dict_mem nm (ext_proc m)"
  shows "add_process nm f dmn as kws m w =
           (Inl RuntimeError, m,
            w\<lparr>pipes := Suc (pipes w),
              procs := procs w @
                [\<lparr>target = f, args = as,
                  kwargs = dict_set ''link_to_parent'' (PyConn (pipes w, End2)) kws,
                  daemon = dmn, started = True, exitcode = None\<rparr>]\<rparr>)"
  using assms
  by (simp add: add_process_def Pipe_def Process_def start_def Let_def nth_append)

text \<open>
  C1. The duplicate-name test of the test suite: \<^verbatim>\<open>add_process('child', long_proc)\<close>
  twice on the manager \<^verbatim>\<open>'master'\<close>. The second call raises RuntimeError and leaves the
  manager as it was, with the one entry \<^verbatim>\<open>'child'\<close> that refers to process 0. But the
  call has created and started a second process before it tested the name: the world
  holds two processes, and process 1 is running without an entry in any table. The claim
  that no child is spawned or leaked by the failing call does not hold of the code.
\<close>

theorem add_process_duplicate_leaks_child:
  "(let m0 = ProcessManager_init ''master'' None;
        (r1, m1, w1) = add_process ''child'' ''long_proc'' False [] [] m0 world0;
        (r2, m2, w2) = add_process ''child'' ''long_proc'' False [] [] m1 w1
    in r1 = Inr () \<and> r2 = Inl RuntimeError \<and> m2 = m1 \<and>
       map fst (ext_proc m2) = [''child''] \<and> map (proc \<circ> snd) (ext_proc m2) = [0] \<and>
       length (procs w1) = 1 \<and> length (procs w2) = 2 \<and>
       started (procs w2 ! 1) \<and> exitcode (procs w2 ! 1) = None \<and>
       target (procs w2 ! 1) = ''long_proc'')"
  by (simp add: add_process_def Pipe_def Process_def start_def Let_def nth_append
      ProcessManager_init_def world0_def dict_mem_def)

subsection \<open>Closing a process that is not in the table\<close>

lemma close_process_absent:
  assumes "map_of (ext_proc m) nm = None"
  shows "close_process nm m w = (Inl KeyError, m, emit (LogClosingProcess nm) w)"
  using assms by (simp add: close_process_def Let_def)

text \<open>
  C3. Closing the name \<^verbatim>\<open>'ghost'\<close> on a manager with an empty table: the call logs
  that it is closing the process and then raises KeyError at the read of the table. It
  does not return; the handler around \<^verbatim>\<open>del\<close> is never reached.
\<close>

theorem close_process_absent_raises:
  "close_process ''ghost'' (ProcessManager_init ''master'' None) world0 =
     (Inl KeyError, ProcessManager_init ''master'' None,
      emit (LogClosingProcess ''ghost'') world0)"
  by (simp add: close_process_def Let_def ProcessManager_init_def)

subsection \<open>Constructing a child manager\<close>

text \<open>
  C9, as stated, fails: a child manager constructed with \<^verbatim>\<open>link_to_parent=None\<close> is
  created, and its parent channel is absent.
\<close>

theorem child_manager_accepts_absent_parent:
  "ChildManager_init ''kid'' (Some None) = Inr (ProcessManager_init ''kid'' None) \<and>
   link_to_parent (ProcessManager_init ''kid'' None) = None"
  by (simp add: ChildManager_init_def ProcessManager_init_def)

text \<open>
  C9, amended. The construction of a child manager demands that the argument
  \<^verbatim>\<open>link_to_parent\<close> be passed: a call without it is refused with TypeError. A call
  that passes it always succeeds, and the manager holds the value passed, whatever it
  is, an empty table and the given name.
\<close>

theorem child_manager_requires_argument:
  "ChildManager_init nm None = Inl TypeError \<and>
   ChildManager_init nm (Some v) = Inr (ProcessManager_init nm v) \<and>
   link_to_parent (ProcessManager_init nm v) = v \<and>
   ext_proc (ProcessManager_init nm v) = [] \<and>
   name (ProcessManager_init nm v) = nm"
  by (simp add: ChildManager_init_def ProcessManager_init_def)

subsection \<open>Reading from the parent of a root manager\<close>

lemma root_failure:
  assumes "link_to_parent mp = None" and "on_parent x"
  shows "mp_failure x (mp, w) =
           Some (if guards_root x then ValueError
                 else AttributeError (NoneHasNoAttribute (if x = Recv None then ''recv'' else ''poll'')))"
  using assms(2,1)
  by (cases x rule: on_parent.cases)
     (simp_all add: raised_def poll_def recv_def send_def check_exit_condition_def
        process_should_continue_def handle_messages_def get_messages_def
        there_is_a_new_message_def)

text \<open>
  C10, as stated, fails in its last clause: \<^verbatim>\<open>_check_exit_condition\<close> is not the only
  operation that guards the missing parent. On the root manager \<^verbatim>\<open>'p_man'\<close>,
  \<^verbatim>\<open>send\<close> with no process name tests for the missing parent as well and raises
  ValueError, a documented failure, without touching the world.
\<close>

theorem root_send_guarded:
  "link_to_parent (ProcessManager_init ''p_man'' None) = None \<and>
   send None (PyStr ''awake?'') (ProcessManager_init ''p_man'' None) world0 =
     (Inl ValueError, world0) \<and>
   documented_failure ValueError"
  by (simp add: send_def ProcessManager_init_def)

text \<open>
  C10, amended. On a manager without a parent channel, \<^verbatim>\<open>poll\<close> and \<^verbatim>\<open>recv\<close> with no
  process name call a method on \<^verbatim>\<open>None\<close>: they raise the interpreter's AttributeError,
  which is neither a returned \<^verbatim>\<open>False\<close> nor one of the documented failures. Two
  operations guard this state with an explicit ValueError: \<^verbatim>\<open>_check_exit_condition\<close>
  (also when \<^verbatim>\<open>process_should_continue\<close> calls it), which leaves the manager and the
  world as they were, and \<^verbatim>\<open>send\<close> with no process name. No other call on the parent
  channel is guarded: of all the calls of a messenger process that address the parent,
  the guarded ones raise ValueError and every other one raises the AttributeError.
\<close>

theorem root_poll_recv_unguarded:
  assumes "link_to_parent m = None"
  shows "poll None timeout m w = Inl (AttributeError (NoneHasNoAttribute ''poll'')) \<and>
         recv None m w = (Inl (AttributeError (NoneHasNoAttribute ''recv'')), w) \<and>
         \<not> documented_failure (AttributeError (NoneHasNoAttribute ''poll'')) \<and>
         \<not> documented_failure (AttributeError (NoneHasNoAttribute ''recv'')) \<and>
         check_exit_condition m w = (Inl ValueError, m, w) \<and>
         process_should_continue m w = (Inl ValueError, m, w) \<and>
         send None v m w = (Inl ValueError, w) \<and>
         documented_failure ValueError \<and>
         (link_to_parent mp = None \<longrightarrow>
            handle_messages None mp w =
              (Inl (AttributeError (NoneHasNoAttribute ''poll'')), mp, w) \<and>
            get_messages None mp w = (Inl (AttributeError (NoneHasNoAttribute ''poll'')), w)) \<and>
         (link_to_parent mp = None \<and> on_parent x \<longrightarrow>
            mp_failure x (mp, w) =
              Some (if guards_root x then ValueError
                    else AttributeError
                           (NoneHasNoAttribute (if x = Recv None then ''recv'' else ''poll'')))) \<and>
         (guards_root x \<longleftrightarrow>
            x = CheckExitCondition \<or> x = ProcessShouldContinue \<or> (\<exists>u. x = Send None u))"
proof -
  have g: "guards_root x \<longleftrightarrow>
            x = CheckExitCondition \<or> x = ProcessShouldContinue \<or> (\<exists>u. x = Send None u)"
    by (cases x rule: guards_root.cases) simp_all
  have f: "link_to_parent mp = None \<and> on_parent x \<longrightarrow>
            mp_failure x (mp, w) =
              Some (if guards_root x then ValueError
                    else AttributeError
                           (NoneHasNoAttribute (if x = Recv None then ''recv'' else ''poll'')))"
    using root_failure [of mp x w] by blast
  have rest: "poll None timeout m w = Inl (AttributeError (NoneHasNoAttribute ''poll'')) \<and>
         recv None m w = (Inl (AttributeError (NoneHasNoAttribute ''recv'')), w) \<and>
         \<not> documented_failure (AttributeError (NoneHasNoAttribute ''poll'')) \<and>
         \<not> documented_failure (AttributeError (NoneHasNoAttribute ''recv'')) \<and>
         check_exit_condition m w = (Inl ValueError, m, w) \<and>
         process_should_continue m w = (Inl ValueError, m, w) \<and>
         send None v m w = (Inl ValueError, w) \<and>
         documented_failure ValueError \<and>
         (link_to_parent mp = None \<longrightarrow>
            handle_messages None mp w =
              (Inl (AttributeError (NoneHasNoAttribute ''poll'')), mp, w) \<and>
            get_messages None mp w = (Inl (AttributeError (NoneHasNoAttribute ''poll'')), w))"
    using assms
    by (simp add: poll_def recv_def send_def check_exit_condition_def
        process_should_continue_def handle_messages_def get_messages_def
        there_is_a_new_message_def)
  from rest f g show ?thesis by blast
qed

theorem root_poll_recv_unguarded_witness:
  "link_to_parent (ProcessManager_init ''p_man'' None) = None \<and>
   poll None (Some 0) (ProcessManager_init ''p_man'' None) world0 =
     Inl (AttributeError (NoneHasNoAttribute ''poll'')) \<and>
   recv None (ProcessManager_init ''p_man'' None) world0 =
     (Inl (AttributeError (NoneHasNoAttribute ''recv'')), world0) \<and>
   check_exit_condition (ProcessManager_init ''p_man'' None) world0 =
     (Inl ValueError, ProcessManager_init ''p_man'' None, world0) \<and>
   send None (PyStr ''awake?'') (ProcessManager_init ''p_man'' None) world0 =
     (Inl ValueError, world0) \<and>
   link_to_parent (MessengerProcess_init ''master'' None) = None \<and>
   handle_messages None (MessengerProcess_init ''master'' None) world0 =
     (Inl (AttributeError (NoneHasNoAttribute ''poll'')),
      MessengerProcess_init ''master'' None, world0) \<and>
   on_parent (GetMessages None) \<and> \<not> guards_root (GetMessages None) \<and>
   mp_failure (GetMessages None) (MessengerProcess_init ''master'' None, world0) =
     Some (AttributeError (NoneHasNoAttribute ''poll'')) \<and>
   on_parent (Send None (PyStr ''awake?'')) \<and> guards_root (Send None (PyStr ''awake?'')) \<and>
   mp_failure (Send None (PyStr ''awake?'')) (MessengerProcess_init ''master'' None, world0) =
     Some ValueError"
  using root_poll_recv_unguarded [where m = "ProcessManager_init ''p_man'' None"
      and mp = "MessengerProcess_init ''master'' None" and timeout = "Some 0" and w = world0
      and v = "PyStr ''awake?''" and x = "GetMessages None"]
    root_poll_recv_unguarded [where m = "ProcessManager_init ''p_man'' None"
      and mp = "MessengerProcess_init ''master'' None" and timeout = "Some 0" and w = world0
      and v = "PyStr ''awake?''" and x = "Send None (PyStr ''awake?'')"]
  by (simp add: ProcessManager_init_def MessengerProcess_init_def add_signal_def raised_def)

section \<open>Properties of the messenger process\<close>

subsection \<open>Dispatch of one message\<close>

text \<open>
  C5. A message is a dictionary with a hashable value \<open>t\<close> under \<^verbatim>\<open>'type'\<close>. When the
  table of handlers has a handler for \<open>t\<close>, \<^verbatim>\<open>process_message\<close> calls it with the whole
  dictionary as named arguments, and the outcome of that call is its own outcome: for a
  function \<open>f\<close> of the user that is \<open>f d\<close>, with the world untouched; for the built-in
  heartbeat handler it is the call of \<^verbatim>\<open>heartbeat\<close> with the dictionary, which logs and
  returns \<^verbatim>\<open>None\<close>, unless the message has a key \<^verbatim>\<open>self\<close>, which the bound method
  refuses with TypeError. When the table has no handler for \<open>t\<close>, the call logs the
  message and raises the AttributeError of an unrecognized signal; it returns no value.
  The test of the suite is the last conjunct: the handler that returns its \<^verbatim>\<open>val\<close>,
  registered under signal \<^verbatim>\<open>A\<close>, gives 5 on \<^verbatim>\<open>{'type': A, 'val': 5}\<close>.
\<close>

theorem process_message_dispatch:
  assumes "map_of d ''type'' = Some t" and "hashable t"
  shows "(map_of (recognized_signals m) t = Some fn \<longrightarrow>
            process_message (PyDict d) m w = call_handler fn d m w) \<and>
         call_handler (Callback f) d m w = (f d, w) \<and>
         call_handler Heartbeat d m w = heartbeat d m w \<and>
         (\<not> dict_mem ''self'' d \<longrightarrow>
            heartbeat d m w = (Inr PyNone, emit (LogHeartbeat (name m)) w)) \<and>
         (dict_mem ''self'' d \<longrightarrow> heartbeat d m w = (Inl TypeError, w)) \<and>
         (map_of (recognized_signals m) t = Some (Callback f) \<longrightarrow>
            process_message (PyDict d) m w = (f d, w)) \<and>
         (map_of (recognized_signals m) t = Some Heartbeat \<longrightarrow>
            process_message (PyDict d) m w = heartbeat d m w) \<and>
         (map_of (recognized_signals m) t = None \<longrightarrow>
            process_message (PyDict d) m w =
              (Inl (AttributeError (UnrecognizedSignal t)), emit (LogReceivedMsg (PyDict d)) w)) \<and>
         process_message
           (PyDict [(''type'', PySignal MESSENGER_A), (''val'', PyInt 5)])
           (snd (add_signal (PySignal MESSENGER_A) (Callback fn_val)
                   (MessengerProcess_init ''master'' None))) w = (Inr (PyInt 5), w)"
  using assms
  by (simp add: process_message_def call_handler_def add_signal_def MessengerProcess_init_def
      fn_val_def heartbeat_def)

theorem process_message_dispatch_witness:
  "map_of [(''type'', PySignal MESSENGER_B), (''val'', PyInt 7)] ''type'' = Some (PySignal MESSENGER_B) \<and>
   hashable (PySignal MESSENGER_B) \<and>
   map_of (recognized_signals (MessengerProcess_init ''master'' None)) (PySignal MESSENGER_B) = None \<and>
   process_message (PyDict [(''type'', PySignal MESSENGER_B), (''val'', PyInt 7)])
     (MessengerProcess_init ''master'' None) world0 =
     (Inl (AttributeError (UnrecognizedSignal (PySignal MESSENGER_B))),
      emit (LogReceivedMsg (PyDict [(''type'', PySignal MESSENGER_B), (''val'', PyInt 7)])) world0) \<and>
   map_of (recognized_signals (snd (add_signal (PySignal MESSENGER_B) (Callback fn_val)
       (MessengerProcess_init ''master'' None)))) (PySignal MESSENGER_B) = Some (Callback fn_val) \<and>
   process_message (PyDict [(''type'', PySignal MESSENGER_B), (''val'', PyInt 7)])
     (snd (add_signal (PySignal MESSENGER_B) (Callback fn_val)
       (MessengerProcess_init ''master'' None))) world0 = (Inr (PyInt 7), world0) \<and>
   map_of [(''type'', PySignal MP_HEARTBEAT)] ''type'' = Some (PySignal MP_HEARTBEAT) \<and>
   map_of (recognized_signals (MessengerProcess_init ''master'' None)) (PySignal MP_HEARTBEAT) =
     Some Heartbeat \<and>
   \<not> dict_mem ''self'' [(''type'', PySignal MP_HEARTBEAT)] \<and>
   process_message (PyDict [(''type'', PySignal MP_HEARTBEAT)])
     (MessengerProcess_init ''master'' None) world0 =
     (Inr PyNone, emit (LogHeartbeat ''master'') world0) \<and>
   map_of [(''type'', PySignal MP_HEARTBEAT), (''self'', PyInt 1)] ''type'' =
     Some (PySignal MP_HEARTBEAT) \<and>
   dict_mem ''self'' [(''type'', PySignal MP_HEARTBEAT), (''self'', PyInt 1)] \<and>
   process_message (PyDict [(''type'', PySignal MP_HEARTBEAT), (''self'', PyInt 1)])
     (MessengerProcess_init ''master'' None) world0 = (Inl TypeError, world0)"
  using process_message_dispatch [of "[(''type'', PySignal MP_HEARTBEAT)]"
      "PySignal MP_HEARTBEAT" "MessengerProcess_init ''master'' None" Heartbeat world0 fn_val]
    process_message_dispatch [of "[(''type'', PySignal MP_HEARTBEAT), (''self'', PyInt 1)]"
      "PySignal MP_HEARTBEAT" "MessengerProcess_init ''master'' None" Heartbeat world0 fn_val]
    process_message_dispatch [of "[(''type'', PySignal MESSENGER_B), (''val'', PyInt 7)]"
      "PySignal MESSENGER_B" "MessengerProcess_init ''master'' None" Heartbeat world0 fn_val]
    process_message_dispatch [of "[(''type'', PySignal MESSENGER_B), (''val'', PyInt 7)]"
      "PySignal MESSENGER_B" "snd (add_signal (PySignal MESSENGER_B) (Callback fn_val)
       (MessengerProcess_init ''master'' None))" "Callback fn_val" world0 fn_val]
  by (simp add: add_signal_def MessengerProcess_init_def fn_val_def dict_mem_def)

subsection \<open>Handling the waiting message\<close>

lemma poll_channel:
  "channel_of pn m = Some c \<Longrightarrow> poll pn (Some t) m w = Inr (inbox w c \<noteq> [])"
  by (auto simp: channel_of_def poll_def conn_poll_def split: option.splits)

lemma recv_channel:
  "channel_of pn m = Some c \<Longrightarrow> recv pn m w = conn_recv c w"
  by (auto simp: channel_of_def recv_def split: option.splits)

lemma poll_no_channel:
  "channel_of pn m = None \<Longrightarrow> \<exists>e. poll pn t m w = Inl e"
  by (auto simp: channel_of_def poll_def split: option.splits)

text \<open>
  C6, as stated, fails: with the message \<^verbatim>\<open>{'type': B}\<close> waiting on the parent channel and
  no handler for \<^verbatim>\<open>B\<close>, \<^verbatim>\<open>handle_messages\<close> receives the message and then raises the
  error of the dispatch; it does not return true.
\<close>

theorem handle_messages_unrecognized_raises:
  "(let m = MessengerProcess_init ''child'' (Some (0, End2));
        w = conn_send (0, End1) (PyDict [(''type'', PySignal MESSENGER_B)]) world0
    in inbox w (0, End2) = [PyDict [(''type'', PySignal MESSENGER_B)]] \<and>
       fst (handle_messages None m w) = Inl (AttributeError (UnrecognizedSignal (PySignal MESSENGER_B))) \<and>
       fst (handle_messages None m w) \<noteq> Inr True \<and>
       inbox (snd (snd (handle_messages None m w))) (0, End2) = [])"
  by (simp add: handle_messages_def there_is_a_new_message_def poll_def conn_poll_def recv_def
      conn_recv_def conn_send_def other_end_def world0_def MessengerProcess_init_def
      msg_is_stop_signal_def process_message_def add_signal_def emit_def Let_def)

text \<open>
  C6, amended. For a call whose channel \<open>c\<close> exists: with nothing waiting the call
  returns false and changes neither the object nor the world; with the stop sentinel at
  the head of the queue it takes exactly that message, sets the stop flag and returns
  true, and nothing else changes (no handler runs); with any other message at the head
  it takes exactly that message and hands it to \<^verbatim>\<open>process_message\<close>: it returns true
  when the dispatch returns, and raises the error of the dispatch when that raises. It
  never waits.
\<close>

theorem handle_messages_cases:
  assumes "channel_of pn m = Some c"
  shows "(inbox w c = [] \<longrightarrow> handle_messages pn m w = (Inr False, m, w)) \<and>
         (inbox w c = PySignal MP_STOP # vs \<longrightarrow>
            handle_messages pn m w =
              (Inr True, m\<lparr>should_stop := True\<rparr>, w\<lparr>inbox := (inbox w)(c := vs)\<rparr>)) \<and>
         (inbox w c = v # vs \<and> v \<noteq> PySignal MP_STOP \<longrightarrow>
            handle_messages pn m w =
              (case process_message v m (w\<lparr>inbox := (inbox w)(c := vs)\<rparr>) of
                 (Inl e, w2) \<Rightarrow> (Inl e, m, w2)
               | (Inr r, w2) \<Rightarrow> (Inr True, m, w2)))"
  using assms
  by (simp add: handle_messages_def there_is_a_new_message_def poll_channel recv_channel
      conn_recv_def msg_is_stop_signal_def)

theorem handle_messages_cases_witness:
  "channel_of None (MessengerProcess_init ''child'' (Some (0, End2))) = Some (0, End2) \<and>
   inbox world0 (0, End2) = [] \<and>
   handle_messages None (MessengerProcess_init ''child'' (Some (0, End2))) world0 =
     (Inr False, MessengerProcess_init ''child'' (Some (0, End2)), world0) \<and>
   inbox (conn_send (0, End1) (PySignal MP_STOP) world0) (0, End2) = [PySignal MP_STOP] \<and>
   fst (handle_messages None (MessengerProcess_init ''child'' (Some (0, End2)))
          (conn_send (0, End1) (PySignal MP_STOP) world0)) = Inr True \<and>
   should_stop (fst (snd (handle_messages None (MessengerProcess_init ''child'' (Some (0, End2)))
          (conn_send (0, End1) (PySignal MP_STOP) world0)))) \<and>
   inbox (snd (snd (handle_messages None (MessengerProcess_init ''child'' (Some (0, End2)))
          (conn_send (0, End1) (PySignal MP_STOP) world0)))) (0, End2) = [] \<and>
   logged (snd (snd (handle_messages None (MessengerProcess_init ''child'' (Some (0, End2)))
          (conn_send (0, End1) (PySignal MP_STOP) world0)))) = [] \<and>
   inbox (conn_send (0, End1) (PyDict [(''type'', PySignal MP_HEARTBEAT)]) world0) (0, End2) =
     [PyDict [(''type'', PySignal MP_HEARTBEAT)]] \<and>
   fst (handle_messages None (MessengerProcess_init ''child'' (Some (0, End2)))
          (conn_send (0, End1) (PyDict [(''type'', PySignal MP_HEARTBEAT)]) world0)) = Inr True \<and>
   \<not> should_stop (fst (snd (handle_messages None (MessengerProcess_init ''child'' (Some (0, End2)))
          (conn_send (0, End1) (PyDict [(''type'', PySignal MP_HEARTBEAT)]) world0)))) \<and>
   logged (snd (snd (handle_messages None (MessengerProcess_init ''child'' (Some (0, End2)))
          (conn_send (0, End1) (PyDict [(''type'', PySignal MP_HEARTBEAT)]) world0)))) =
     [LogHeartbeat ''child'']"
  using handle_messages_cases [of None "MessengerProcess_init ''child'' (Some (0, End2))"
      "(0, End2)" world0 "[]" PyNone]
    handle_messages_cases [of None "MessengerProcess_init ''child'' (Some (0, End2))"
      "(0, End2)" "conn_send (0, End1) (PySignal MP_STOP) world0" "[]" PyNone]
    handle_messages_cases [of None "MessengerProcess_init ''child'' (Some (0, End2))"
      "(0, End2)" "conn_send (0, End1) (PyDict [(''type'', PySignal MP_HEARTBEAT)]) world0" "[]"
      "PyDict [(''type'', PySignal MP_HEARTBEAT)]"]
  by (simp add: channel_of_def MessengerProcess_init_def add_signal_def world0_def conn_send_def
      other_end_def process_message_def call_handler_def heartbeat_def emit_def dict_mem_def)

subsection \<open>The stop flag\<close>

lemma add_process_should_stop:
  "should_stop (fst (snd (add_process nm f dmn as kws m w))) = should_stop m"
  by (simp add: add_process_def Let_def split: prod.splits)

lemma close_process_should_stop:
  "should_stop (fst (snd (close_process nm m w))) = should_stop m"
  by (simp add: close_process_def Let_def split: option.splits)

lemma close_each_should_stop:
  "should_stop (fst (snd (close_each ks m w))) = should_stop m"
proof (induction ks arbitrary: m w)
  case Nil
  show ?case by simp
next
  case (Cons k ks)
  obtain r m' w' where c: "close_process k m (emit (LogClosing k) w) = (r, m', w')"
    by (cases "close_process k m (emit (LogClosing k) w)") auto
  have "should_stop m' = should_stop m"
    using close_process_should_stop [of k m "emit (LogClosing k) w"] c by simp
  then show ?case using c Cons.IH [of m' w'] by (cases r) simp_all
qed

lemma check_exit_condition_should_stop:
  "should_stop (fst (snd (check_exit_condition m w))) = should_stop m"
  by (simp add: check_exit_condition_def split: sum.splits bool.splits prod.splits)

lemma process_should_continue_should_stop:
  "should_stop (fst (snd (process_should_continue m w))) = should_stop m"
  using check_exit_condition_should_stop [of m w]
  by (auto simp: process_should_continue_def split: sum.splits prod.splits)

lemma handle_messages_should_stop:
  "should_stop (fst (snd (handle_messages pn m w))) = (should_stop m \<or> stop_observed (HandleMessages pn) (m, w))"
proof (cases "channel_of pn m")
  case None
  then obtain e where "poll pn (Some 0) m w = Inl e" using poll_no_channel by blast
  then show ?thesis using None
    by (simp add: handle_messages_def there_is_a_new_message_def stop_observed_def)
next
  case (Some c)
  show ?thesis
    by (simp add: handle_messages_def there_is_a_new_message_def poll_channel [OF Some]
        recv_channel [OF Some] conn_recv_def msg_is_stop_signal_def stop_observed_def Some
        split: list.splits sum.splits prod.splits)
qed

lemma mp_step_should_stop:
  "should_stop (fst (mp_step op s)) = (should_stop (fst s) \<or> stop_observed op s)"
proof (cases s)
  case (Pair m w)
  show ?thesis
  proof (cases op)
    case (HandleMessages pn)
    then show ?thesis using handle_messages_should_stop [of pn m w] Pair by simp
  qed (simp_all add: Pair stop_observed_def add_signal_def setup_hook_def loop_routine_def
        teardown_def add_process_should_stop close_process_should_stop
        close_all_processes_def close_each_should_stop check_exit_condition_should_stop
        process_should_continue_should_stop)
qed

lemma mp_run_should_stop:
  "should_stop (fst s) \<Longrightarrow> should_stop (fst (mp_run ops s))"
  by (induction ops arbitrary: s) (simp_all add: mp_step_should_stop)

text \<open>
  C8. The stop flag is false in a newly constructed messenger process. Every operation
  of the class, and every operation it inherits from the process manager, leaves a true
  flag true, whether the call returns or raises, and so does every sequence of
  operations. A step that turns the flag from false to true is a \<^verbatim>\<open>handle_messages\<close>
  whose channel has the stop sentinel at the head of its queue. (A handler supplied by
  the user is a function of the message and is not an operation of the class.)
\<close>

theorem should_stop_monotone:
  "\<not> should_stop (MessengerProcess_init nm ltp) \<and>
   (should_stop (fst s) \<longrightarrow> should_stop (fst (mp_step op s))) \<and>
   (should_stop (fst s) \<longrightarrow> should_stop (fst (mp_run ops s))) \<and>
   (\<not> should_stop (fst s) \<and> should_stop (fst (mp_step op s)) \<longrightarrow> stop_observed op s)"
  using mp_run_should_stop [of s ops]
  by (auto simp: mp_step_should_stop MessengerProcess_init_def add_signal_def)

theorem should_stop_monotone_witness:
  "\<not> should_stop (MessengerProcess_init ''child'' (Some (0, End2))) \<and>
   stop_observed (HandleMessages None)
     (MessengerProcess_init ''child'' (Some (0, End2)),
      conn_send (0, End1) (PySignal MP_STOP) world0) \<and>
   should_stop (fst (mp_step (HandleMessages None)
     (MessengerProcess_init ''child'' (Some (0, End2)),
      conn_send (0, End1) (PySignal MP_STOP) world0))) \<and>
   should_stop (fst (mp_step (AddSignal (PySignal MESSENGER_A) (Callback fn_val))
     (mp_step (HandleMessages None)
       (MessengerProcess_init ''child'' (Some (0, End2)),
        conn_send (0, End1) (PySignal MP_STOP) world0)))) \<and>
   should_stop (fst (mp_run
     [HandleMessages None, ProcessMessage (PyDict [(''type'', PySignal MP_HEARTBEAT)]),
      GetMessages None, Setup, LoopRoutine, Teardown, HeartbeatCall [], ShouldStopLoop]
     (mp_step (HandleMessages None)
       (MessengerProcess_init ''child'' (Some (0, End2)),
        conn_send (0, End1) (PySignal MP_STOP) world0))))"
proof -
  let ?s0 = "(MessengerProcess_init ''child'' (Some (0, End2)),
             conn_send (0, End1) (PySignal MP_STOP) world0)"
  let ?s1 = "mp_step (HandleMessages None) ?s0"
  have obs: "stop_observed (HandleMessages None) ?s0"
    by (simp add: stop_observed_def channel_of_def MessengerProcess_init_def add_signal_def
        conn_send_def other_end_def world0_def)
  have init: "\<not> should_stop (MessengerProcess_init ''child'' (Some (0, End2)))"
    using should_stop_monotone [of "''child''" "Some (0, End2)"] by simp
  have s1: "should_stop (fst ?s1)"
    by (simp add: handle_messages_def there_is_a_new_message_def poll_def recv_def
        conn_poll_def conn_recv_def msg_is_stop_signal_def MessengerProcess_init_def
        add_signal_def conn_send_def other_end_def world0_def)
  have step: "should_stop (fst (mp_step (AddSignal (PySignal MESSENGER_A) (Callback fn_val)) ?s1))"
    using should_stop_monotone [where s = ?s1
        and op = "AddSignal (PySignal MESSENGER_A) (Callback fn_val)"] s1
    by blast
  have run: "should_stop (fst (mp_run
     [HandleMessages None, ProcessMessage (PyDict [(''type'', PySignal MP_HEARTBEAT)]),
      GetMessages None, Setup, LoopRoutine, Teardown, HeartbeatCall [], ShouldStopLoop] ?s1))"
    using should_stop_monotone [where s = ?s1
        and ops = "[HandleMessages None, ProcessMessage (PyDict [(''type'', PySignal MP_HEARTBEAT)]),
      GetMessages None, Setup, LoopRoutine, Teardown, HeartbeatCall [], ShouldStopLoop]"] s1
    by blast
  from init obs s1 step run show ?thesis by blast
qed

section \<open>Properties of the timed loops\<close>

subsection \<open>One paced call\<close>

lemma schedule_spec:
  "schedule self w =
     (spec_target self w, self\<lparr>i := i self + 1, init_time := Some (spec_origin self w)\<rparr>)"
  by (cases "init_time self")
     (simp_all add: schedule_def spec_target_def spec_origin_def perf_counter_def Let_def)

lemma time_sleep_cases:
  assumes "0 \<le> s"
  shows "time_sleep s w =
           (if sleep_max w < s then Inl OverflowError
            else if sleep_os_max w < s then Inl OSError
            else Inr (w\<lparr>clock := clock w + s, slept := slept w @ [s]\<rparr>))"
  using assms by (simp add: time_sleep_def)

lemma spec_sleep_nonneg: "0 \<le> spec_sleep a b"
  by (simp add: spec_sleep_def)

lemma wrapper_outcomes:
  assumes "loop_func w = (res, w1)"
  shows "wrapper self loop_func w =
           (if sleep_max w1 < spec_sleep (spec_target self w) (clock w1)
            then (Inl OverflowError,
                  self\<lparr>i := i self + 1, init_time := Some (spec_origin self w)\<rparr>, w1)
            else if sleep_os_max w1 < spec_sleep (spec_target self w) (clock w1)
            then (Inl OSError,
                  self\<lparr>i := i self + 1, init_time := Some (spec_origin self w)\<rparr>, w1)
            else (Inr res,
                  self\<lparr>i := i self + 1, init_time := Some (spec_origin self w)\<rparr>,
                  w1\<lparr>clock := clock w1 + spec_sleep (spec_target self w) (clock w1),
                     slept := slept w1 @ [spec_sleep (spec_target self w) (clock w1)]\<rparr>))"
proof -
  have "time_sleep (spec_sleep (spec_target self w) (clock w1)) w1 =
      (if sleep_max w1 < spec_sleep (spec_target self w) (clock w1) then Inl OverflowError
       else if sleep_os_max w1 < spec_sleep (spec_target self w) (clock w1) then Inl OSError
       else Inr (w1\<lparr>clock := clock w1 + spec_sleep (spec_target self w) (clock w1),
                   slept := slept w1 @ [spec_sleep (spec_target self w) (clock w1)]\<rparr>))"
    by (rule time_sleep_cases) (rule spec_sleep_nonneg)
  then show ?thesis
    using assms
    by (simp add: wrapper_def schedule_spec perf_counter_def flip: spec_sleep_def)
qed


subsection \<open>Runs of paced calls\<close>









subsection \<open>The synchronized loop\<close>

lemma sync_wrapper_spec:
  assumes "loop_func w = (res, w1)"
  shows "sync_wrapper stl loop_func w =
     (let s = spec_sleep (spec_target stl w) (clock w1);
          stl' = stl\<lparr>i := i stl + 1, init_time := Some (spec_origin stl w)\<rparr>;
          w2 = w1\<lparr>clock := clock w1 + s, slept := slept w1 @ [s]\<rparr>;
          w3 = w1\<lparr>printed := printed w1 @
                     [PrintOverflow s, PrintTimes (spec_target stl w) (clock w1)]\<rparr>
      in if sleep_max w1 < s
         then (Inr res,
               if iterations_per_update stl \<le> i stl + 1
               then stl'\<lparr>i := 0, dt := timestep_lookup_fn stl w3, init_time := None\<rparr>
               else stl',
               w3)
         else if sleep_os_max w1 < s then (Inl OSError, stl', w1)
         else (Inr res,
               if iterations_per_update stl \<le> i stl + 1
               then stl'\<lparr>i := 0, dt := timestep_lookup_fn stl w2, init_time := None\<rparr>
               else stl',
               w2))"
proof -
  have "time_sleep (spec_sleep (spec_target stl w) (clock w1)) w1 =
      (if sleep_max w1 < spec_sleep (spec_target stl w) (clock w1) then Inl OverflowError
       else if sleep_os_max w1 < spec_sleep (spec_target stl w) (clock w1) then Inl OSError
       else Inr (w1\<lparr>clock := clock w1 + spec_sleep (spec_target stl w) (clock w1),
                   slept := slept w1 @ [spec_sleep (spec_target stl w) (clock w1)]\<rparr>))"
    by (rule time_sleep_cases) (rule spec_sleep_nonneg)
  then show ?thesis
    using assms
    by (simp add: sync_wrapper_def schedule_spec perf_counter_def
        synchronize_def change_dt_def Let_def flip: spec_sleep_def)
qed

text \<open>
  Where the plain call returns, or raises anything but OverflowError, the synchronized call
  does the same and then synchronizes iff the counter has reached the interval; where the
  plain call raises OverflowError, the synchronized call has caught it.
\<close>

lemma sync_wrapper_and_wrapper:
  "(wrapper stl loop_func w = (Inr r, stl', w2) \<longrightarrow>
      sync_wrapper stl loop_func w =
        (Inr r, (if iterations_per_update stl' \<le> i stl' then synchronize stl' w2 else stl'), w2)) \<and>
   (wrapper stl loop_func w = (Inl OSError, stl', w1) \<longrightarrow>
      sync_wrapper stl loop_func w = (Inl OSError, stl', w1)) \<and>
   (wrapper stl loop_func w = (Inl OverflowError, stl', w1) \<longrightarrow>
      sync_wrapper stl loop_func w =
        (Inr (fst (loop_func w)),
         (if iterations_per_update stl' \<le> i stl'
          then synchronize stl'
                 (w1\<lparr>printed := printed w1 @
                      [PrintOverflow (spec_sleep (spec_target stl w) (clock w1)),
                       PrintTimes (spec_target stl w) (clock w1)]\<rparr>)
          else stl'),
         w1\<lparr>printed := printed w1 @
              [PrintOverflow (spec_sleep (spec_target stl w) (clock w1)),
               PrintTimes (spec_target stl w) (clock w1)]\<rparr>)) \<and>
   synchronize stl' w2 = stl'\<lparr>i := 0, dt := timestep_lookup_fn stl' w2, init_time := None\<rparr> \<and>
   synchronize stl' w2 = change_dt (timestep_lookup_fn stl' w2) stl'"
proof -
  obtain res v1 where b: "loop_func w = (res, v1)" by (cases "loop_func w")
  note sw = sync_wrapper_spec [where loop_func = loop_func and w = w and stl = stl, OF b]
  note pw = wrapper_outcomes [where loop_func = loop_func and w = w and self = stl, OF b]
  have 1: "wrapper stl loop_func w = (Inr r, stl', w2) \<longrightarrow>
      sync_wrapper stl loop_func w =
        (Inr r, (if iterations_per_update stl' \<le> i stl' then synchronize stl' w2 else stl'), w2)"
    using sw pw b by (auto simp: Let_def synchronize_def change_dt_def split: if_splits)
  have 2: "wrapper stl loop_func w = (Inl OSError, stl', w1) \<longrightarrow>
      sync_wrapper stl loop_func w = (Inl OSError, stl', w1)"
    using sw pw b by (auto simp: Let_def split: if_splits)
  have 3: "wrapper stl loop_func w = (Inl OverflowError, stl', w1) \<longrightarrow>
      sync_wrapper stl loop_func w =
        (Inr (fst (loop_func w)),
         (if iterations_per_update stl' \<le> i stl'
          then synchronize stl'
                 (w1\<lparr>printed := printed w1 @
                      [PrintOverflow (spec_sleep (spec_target stl w) (clock w1)),
                       PrintTimes (spec_target stl w) (clock w1)]\<rparr>)
          else stl'),
         w1\<lparr>printed := printed w1 @
              [PrintOverflow (spec_sleep (spec_target stl w) (clock w1)),
               PrintTimes (spec_target stl w) (clock w1)]\<rparr>)"
    using sw pw b by (auto simp: Let_def synchronize_def change_dt_def split: if_splits)
  have 4: "synchronize stl' w2 = stl'\<lparr>i := 0, dt := timestep_lookup_fn stl' w2, init_time := None\<rparr>"
    by (simp add: synchronize_def change_dt_def)
  have 5: "synchronize stl' w2 = change_dt (timestep_lookup_fn stl' w2) stl'"
    by (simp add: synchronize_def)
  from 1 2 3 4 5 show ?thesis by blast
qed

text \<open>
  C7. A plain loop and a synchronized loop of period \<open>10\<^sup>1\<^sup>0\<close> seconds, interval 10, on the
  same platform with the same empty body: the sleep is more than the time type takes. The
  plain call raises OverflowError and returns nothing; the synchronized call catches the
  error, prints the offending values, sleeps nothing and returns the result. The two
  calls do not have the same mechanics, as the claim says they have: the handler around
  \<^verbatim>\<open>time.sleep\<close> of the synchronized loop is missing in the plain loop. Everywhere else
  the two calls agree and the synchronization is as the claim says (the lemma above). On
  a period of 5/100 seconds with interval 1, both calls sleep 5/100 seconds, and the
  synchronized call then installs the period of the lookup with counter 0 and no origin.
\<close>

theorem synchronized_overflow_differs:
  "wrapper (SynchronizedTimedLoop_init 10000000000 10 (\<lambda>w. 1)) (busy 0 ()) platform0 =
     (Inl OverflowError,
      \<lparr>i = 1, dt = 10000000000, init_time = Some 0, iterations_per_update = 10,
        timestep_lookup_fn = (\<lambda>w. 1)\<rparr>,
      platform0) \<and>
   sync_wrapper (SynchronizedTimedLoop_init 10000000000 10 (\<lambda>w. 1)) (busy 0 ()) platform0 =
     (Inr (),
      \<lparr>i = 1, dt = 10000000000, init_time = Some 0, iterations_per_update = 10,
        timestep_lookup_fn = (\<lambda>w. 1)\<rparr>,
      platform0\<lparr>printed := [PrintOverflow 10000000000, PrintTimes 10000000000 0]\<rparr>) \<and>
   wrapper (SynchronizedTimedLoop_init (5 / 100) 1 (\<lambda>w. 1 / 10)) (busy 0 ()) platform0 =
     (Inr (),
      \<lparr>i = 1, dt = 5 / 100, init_time = Some 0, iterations_per_update = 1,
        timestep_lookup_fn = (\<lambda>w. 1 / 10)\<rparr>,
      platform0\<lparr>clock := 5 / 100, slept := [5 / 100]\<rparr>) \<and>
   sync_wrapper (SynchronizedTimedLoop_init (5 / 100) 1 (\<lambda>w. 1 / 10)) (busy 0 ()) platform0 =
     (Inr (),
      \<lparr>i = 0, dt = 1 / 10, init_time = None, iterations_per_update = 1,
        timestep_lookup_fn = (\<lambda>w. 1 / 10)\<rparr>,
      platform0\<lparr>clock := 5 / 100, slept := [5 / 100]\<rparr>)"
  by (simp add: wrapper_def sync_wrapper_def schedule_def busy_def time_sleep_def perf_counter_def
      SynchronizedTimedLoop_init_def platform0_def Let_def synchronize_def change_dt_def)

section \<open>Properties of the lookup by player\<close>

lemma by_player_never_ValueError:
  "get_timestep_lookup_function_by_player mem clp player \<noteq> Inl ValueError"
  by (simp add: get_timestep_lookup_function_by_player_def split: option.splits)

text \<open>
  C4. The string \<^verbatim>\<open>'nobody'\<close> is not a player. With the module \<^verbatim>\<open>mem\<close> bound, the
  builder returns a lookup on the clock location for it instead of raising ValueError;
  with \<^verbatim>\<open>mem\<close> unbound, as in the sources, it raises NameError, and so it does for the
  recognized player DXL. The first test of the function holds for every player, so the
  branch that raises ValueError is never taken (and VREP gets the clock location too).
\<close>

theorem by_player_unrecognized_not_rejected:
  "\<not> recognized_player (PyStr ''nobody'') \<and>
   get_timestep_lookup_function_by_player (Some (\<lambda>l. [])) (5 / 1000) (PyStr ''nobody'') =
     Inr (TimestepLookup (5 / 1000) DATA_CLOCK ''real_time_factor'') \<and>
   get_timestep_lookup_function_by_player None (5 / 1000) (PyStr ''nobody'') = Inl NameError \<and>
   get_timestep_lookup_function_by_player None (5 / 1000) (PyPlayer DXL) = Inl NameError \<and>
   get_timestep_lookup_function_by_player (Some (\<lambda>l. [])) (5 / 1000) (PyPlayer VREP) =
     Inr (TimestepLookup (5 / 1000) DATA_CLOCK ''real_time_factor'')"
  by (simp add: get_timestep_lookup_function_by_player_def recognized_player_def
      get_timestep_lookup_function_def)

end
